theory Spec2Isabelle
  imports Main
begin

section \<open>JavaScript values used by the plugin\<close>

text \<open>
  The plugin is the single module \<^verbatim>\<open>src/index.ts\<close>. Strings are lists of
  \<^typ>\<open>char\<close>, read as UTF-16 code units below 256. An absent property
  (\<^verbatim>\<open>undefined\<close>) is \<^term>\<open>None\<close>. A thrown exception is the left injection
  of a sum. The first constructors are the \<^verbatim>\<open>Error\<close>s the plugin throws itself, named
  after their messages; \<open>TypeError\<close> is thrown by the runtime on a property read of
  \<^verbatim>\<open>null\<close> or \<^verbatim>\<open>undefined\<close> or on a path argument that is not a string;
  \<open>EISDIR\<close>, \<open>ENOENT\<close> and \<open>EEXIST\<close> are thrown by \<^verbatim>\<open>node:fs\<close>, with the path.
\<close>

datatype error =
    MissingConfiguration
  | ConfigurationNotObject
  | MissingNamespace
  | MissingInput
  | PublicDirectoryNotSubdirectory
  | BuildDirectoryNotSubdirectory
  | CiEnvironment
  | CertificatesNotFound "string option" "string option"
  | HostUndetermined "string option"
  | TypeError
  | EISDIR string
  | ENOENT string
  | EEXIST string

type_synonym env = "string \<rightharpoonup> string"

text \<open>Truthiness of a value of type \<^verbatim>\<open>string | undefined\<close>: only \<^verbatim>\<open>undefined\<close>
  and the empty string are falsy.\<close>

fun truthy :: "string option \<Rightarrow> bool" where
  "truthy None = False"
| "truthy (Some s) = (s \<noteq> [])"

text \<open>The operator \<^verbatim>\<open>a ?? b\<close> on a value that is never \<^verbatim>\<open>null\<close>.\<close>

fun coalesce :: "'a option \<Rightarrow> 'a \<Rightarrow> 'a" where
  "coalesce None d = d"
| "coalesce (Some v) d = v"

text \<open>Interpolation \<^verbatim>\<open>${n}\<close> of a non-negative integer: its decimal digits.\<close>

fun numberToString :: "nat \<Rightarrow> string" where
  "numberToString n =
     (if n < 10 then [''0123456789'' ! n]
      else numberToString (n div 10) @ [''0123456789'' ! (n mod 10)])"

declare numberToString.simps [simp del]

subsection \<open>String.prototype.trim and the two slash-stripping replacements\<close>

text \<open>
  \<^verbatim>\<open>trim()\<close> removes white space and line terminators from both ends; below 256 these
  are the code units 9 to 13, 32 and 160. \<^verbatim>\<open>replace(/^\/+/, "")\<close> removes every
  leading slash and \<^verbatim>\<open>replace(/\/+$/, "")\<close> every trailing one.
\<close>

definition isWhiteSpace :: "char \<Rightarrow> bool" where
  "isWhiteSpace c = (of_char c \<in> {9, 10, 11, 12, 13, 32, 160 :: nat})"

definition trim :: "string \<Rightarrow> string" where
  "trim s = rev (dropWhile isWhiteSpace (rev (dropWhile isWhiteSpace s)))"

definition trimLeadingSlashes :: "string \<Rightarrow> string" where
  "trimLeadingSlashes s = dropWhile (\<lambda>c. c = CHR ''/'') s"

definition trimTrailingSlashes :: "string \<Rightarrow> string" where
  "trimTrailingSlashes s = rev (dropWhile (\<lambda>c. c = CHR ''/'') (rev s))"

subsection \<open>node:path on POSIX\<close>

text \<open>
  \<^verbatim>\<open>join\<close> and \<^verbatim>\<open>resolve\<close> come from Node's \<^verbatim>\<open>path\<close> module, which is not part of
  the repository. They are modelled after its POSIX implementation: a path is cut at
  every slash, \<^verbatim>\<open>normalizeString\<close> drops empty and \<^verbatim>\<open>.\<close> segments and lets \<^verbatim>\<open>..\<close>
  cancel the segment before it (or keeps it when above the root is allowed), and the
  segments are glued together again with single slashes. The accumulator of
  \<open>normalizeSegments\<close> holds the segments kept so far, last one first.
\<close>

fun splitSegments :: "string \<Rightarrow> string list" where
  "splitSegments [] = [[]]"
| "splitSegments (c # cs) =
     (if c = CHR ''/'' then [] # splitSegments cs
      else (case splitSegments cs of
              [] \<Rightarrow> [[c]]
            | s # ss \<Rightarrow> (c # s) # ss))"

fun joinSegments :: "string list \<Rightarrow> string" where
  "joinSegments [] = []"
| "joinSegments [s] = s"
| "joinSegments (s # t # ss) = s @ CHR ''/'' # joinSegments (t # ss)"

fun normalizeSegments :: "bool \<Rightarrow> string list \<Rightarrow> string list \<Rightarrow> string list" where
  "normalizeSegments allowAboveRoot res [] = rev res"
| "normalizeSegments allowAboveRoot res (s # ss) =
     (if s = [] \<or> s = ''.'' then normalizeSegments allowAboveRoot res ss
      else if s = ''..'' then
        (if res \<noteq> [] \<and> hd res \<noteq> ''..'' then normalizeSegments allowAboveRoot (tl res) ss
         else if allowAboveRoot then normalizeSegments allowAboveRoot (''..'' # res) ss
         else normalizeSegments allowAboveRoot res ss)
      else normalizeSegments allowAboveRoot (s # res) ss)"

definition normalizeString :: "string \<Rightarrow> bool \<Rightarrow> string" where
  "normalizeString path allowAboveRoot =
     joinSegments (normalizeSegments allowAboveRoot [] (splitSegments path))"

definition isAbsolute :: "string \<Rightarrow> bool" where
  "isAbsolute path = (path \<noteq> [] \<and> hd path = CHR ''/'')"

definition normalize :: "string \<Rightarrow> string" where
  "normalize path =
     (if path = [] then ''.''
      else
        (let trailingSeparator = (last path = CHR ''/'');
             p = normalizeString path (\<not> isAbsolute path)
         in if p = [] then
              (if isAbsolute path then ''/'' else if trailingSeparator then ''./'' else ''.'')
            else
              (if isAbsolute path then ''/'' else []) @ p @
              (if trailingSeparator then ''/'' else [])))"

text \<open>\<^verbatim>\<open>join(a, b)\<close>: the non-empty arguments with a slash between them, normalized.\<close>

definition join :: "string \<Rightarrow> string \<Rightarrow> string" where
  "join a b =
     (if a = [] \<and> b = [] then ''.''
      else if a = [] then normalize b
      else if b = [] then normalize a
      else normalize (a @ CHR ''/'' # b))"

text \<open>
  \<^verbatim>\<open>resolve(p)\<close> with one argument, in a process whose working directory is \<open>cwd\<close>:
  a relative or empty argument is put behind the working directory.
\<close>

definition resolve :: "string \<Rightarrow> string \<Rightarrow> string" where
  "resolve cwd p =
     (let withArg = (if p = [] then [] else p @ ''/'');
          resolvedPath =
            (if isAbsolute p \<or> cwd = [] then withArg else cwd @ CHR ''/'' # withArg);
          resolvedAbsolute = (if isAbsolute p \<or> cwd = [] then isAbsolute p else isAbsolute cwd);
          n = normalizeString resolvedPath (\<not> resolvedAbsolute)
      in if resolvedAbsolute then CHR ''/'' # n
         else if n \<noteq> [] then n else ''.'')"

subsection \<open>node:fs\<close>

text \<open>
  The file system maps a path, as the plugin passes it, to the node found there. Of the
  failures of \<^verbatim>\<open>node:fs\<close> the model keeps those decided by the node at the path
  itself; missing parent directories and permissions are outside it.
  \<^verbatim>\<open>existsSync\<close> answers \<^verbatim>\<open>false\<close> for \<^verbatim>\<open>undefined\<close> and for the empty path;
  the other calls throw on both.
\<close>

datatype fs_node = File string | Directory

type_synonym filesystem = "string \<rightharpoonup> fs_node"

fun existsSync :: "filesystem \<Rightarrow> string option \<Rightarrow> bool" where
  "existsSync fs None = False"
| "existsSync fs (Some p) = (p \<noteq> [] \<and> fs p \<noteq> None)"




text \<open>\<^verbatim>\<open>mkdirSync(p, { recursive: true })\<close>; an existing directory is left as it is.\<close>

fun mkdirSync :: "filesystem \<Rightarrow> string option \<Rightarrow> error + filesystem" where
  "mkdirSync fs None = Inl TypeError"
| "mkdirSync fs (Some p) =
     (if p = [] then Inl (ENOENT p)
      else (case fs p of
              Some (File contents) \<Rightarrow> Inl (EEXIST p)
            | _ \<Rightarrow> Inr (fs(p \<mapsto> Directory))))"

section \<open>Environment gate\<close>

datatype command = Build | Serve

text \<open>
  \<^verbatim>\<open>ensureCommandShouldRunInEnvironment(command, env)\<close>, lines 313-326: an early return
  for \<^verbatim>\<open>build\<close> or the bypass variable, then a throw when \<^verbatim>\<open>typeof env.CI\<close> is not
  \<^verbatim>\<open>"undefined"\<close>.
\<close>

definition ensureCommandShouldRunInEnvironment :: "command \<Rightarrow> env \<Rightarrow> error + unit" where
  "ensureCommandShouldRunInEnvironment command env =
     (if command = Build \<or> env ''WORDPRESS_BYPASS_ENV_CHECK'' = Some ''1'' then Inr ()
      else if env ''CI'' \<noteq> None then Inl CiEnvironment
      else Inr ())"

section \<open>Dev-server URL\<close>

text \<open>
  \<^verbatim>\<open>AddressInfo\<close> of \<^verbatim>\<open>node:net\<close>: the family is the string \<^verbatim>\<open>"IPv4"\<close> or
  \<^verbatim>\<open>"IPv6"\<close>, and was a number in Node 18.0 to 18.3. Of Vite's resolved configuration
  the function reads \<^verbatim>\<open>server.hmr\<close> (a boolean or an options object with optional
  \<^verbatim>\<open>protocol\<close>, \<^verbatim>\<open>host\<close> and \<^verbatim>\<open>clientPort\<close>), \<^verbatim>\<open>server.host\<close> (a string or a
  boolean) and \<^verbatim>\<open>server.https\<close> (absent, a boolean in older Vite, or an options
  object). Ports are natural numbers.
\<close>

datatype family = FamilyString string | FamilyNumber int

record address_info =
  address :: string
  family :: family
  port :: nat

record hmr_options =
  protocol :: "string option"
  host :: "string option"
  clientPort :: "nat option"

datatype hmr_setting = HmrUndefined | HmrBoolean bool | HmrOptions hmr_options

datatype host_setting = HostUndefined | HostBoolean bool | HostString string

datatype https_setting = HttpsUndefined | HttpsBoolean bool | HttpsOptions

record server_options =
  server_hmr :: hmr_setting
  server_host :: host_setting
  server_https :: https_setting

fun httpsTruthy :: "https_setting \<Rightarrow> bool" where
  "httpsTruthy HttpsUndefined = False"
| "httpsTruthy (HttpsBoolean b) = b"
| "httpsTruthy HttpsOptions = True"

text \<open>\<^verbatim>\<open>isIpv6(address)\<close>, lines 542-551.\<close>

definition isIpv6 :: "address_info \<Rightarrow> bool" where
  "isIpv6 a = (family a = FamilyString ''IPv6'' \<or> family a = FamilyNumber 6)"

text \<open>
  \<^verbatim>\<open>resolveDevServerUrl(address, config)\<close>, lines 508-540. The local constants keep
  their names; \<^verbatim>\<open>null\<close> and \<^verbatim>\<open>undefined\<close> are both \<^term>\<open>None\<close>, which is all that
  \<^verbatim>\<open>??\<close> and the truthiness test of \<^verbatim>\<open>configHmrProtocol\<close> can see.
\<close>

definition resolveDevServerUrl :: "address_info \<Rightarrow> server_options \<Rightarrow> string" where
  "resolveDevServerUrl a config =
     (let configHmrProtocol =
            (case server_hmr config of HmrOptions h \<Rightarrow> protocol h | _ \<Rightarrow> None);
          clientProtocol =
            (if truthy configHmrProtocol
             then (if configHmrProtocol = Some ''wss'' then Some ''https'' else Some ''http'')
             else None);
          serverProtocol = (if httpsTruthy (server_https config) then ''https'' else ''http'');
          protocol' = coalesce clientProtocol serverProtocol;
          configHmrHost = (case server_hmr config of HmrOptions h \<Rightarrow> host h | _ \<Rightarrow> None);
          configHost = (case server_host config of HostString h \<Rightarrow> Some h | _ \<Rightarrow> None);
          serverAddress = (if isIpv6 a then ''['' @ address a @ '']'' else address a);
          host' = coalesce configHmrHost (coalesce configHost serverAddress);
          configHmrClientPort =
            (case server_hmr config of HmrOptions h \<Rightarrow> clientPort h | _ \<Rightarrow> None);
          port' = coalesce configHmrClientPort (port a)
      in protocol' @ ''://'' @ host' @ '':'' @ numberToString port')"

text \<open>
  The resolution order of the specification, field by field. An override is what the
  configuration holds under \<^verbatim>\<open>server.hmr\<close> when that is an options object; the
  protocol override counts as set when it is a non-empty string, the host and port
  overrides when they are present.
\<close>

definition hmrOverride :: "(hmr_options \<Rightarrow> 'a option) \<Rightarrow> server_options \<Rightarrow> 'a option" where
  "hmrOverride field config =
     (case server_hmr config of HmrOptions h \<Rightarrow> field h | _ \<Rightarrow> None)"

definition spec_scheme :: "server_options \<Rightarrow> string" where
  "spec_scheme config =
     (case hmrOverride protocol config of
        Some p \<Rightarrow>
          (if p = ''wss'' then ''https''
           else if p \<noteq> [] then ''http''
           else if httpsTruthy (server_https config) then ''https'' else ''http'')
      | None \<Rightarrow> (if httpsTruthy (server_https config) then ''https'' else ''http''))"

definition spec_host :: "address_info \<Rightarrow> server_options \<Rightarrow> string" where
  "spec_host a config =
     (case hmrOverride host config of
        Some h \<Rightarrow> h
      | None \<Rightarrow>
          (case server_host config of
             HostString h \<Rightarrow> h
           | _ \<Rightarrow>
               (if family a = FamilyString ''IPv6'' \<or> family a = FamilyNumber 6
                then ''['' @ address a @ '']'' else address a)))"

definition spec_port :: "address_info \<Rightarrow> server_options \<Rightarrow> nat" where
  "spec_port a config =
     (case hmrOverride clientPort config of Some p \<Rightarrow> p | None \<Rightarrow> port a)"

section \<open>Plugin configuration\<close>

text \<open>
  \<^verbatim>\<open>PluginConfig\<close>, lines 20-83, with every property optional: the type declares
  \<^verbatim>\<open>namespace\<close>, \<^verbatim>\<open>input\<close> and \<^verbatim>\<open>ssrExternal\<close> as required, the code tests them at
  run time. \<^verbatim>\<open>Required<PluginConfig>\<close> is the same record with every field present.
  An entry point is a string or an array of strings. A \<^verbatim>\<open>refresh\<close> value is a boolean,
  a string, an array of strings, one \<^verbatim>\<open>RefreshConfig\<close> or an array of them; the empty
  array is both \<open>RefreshStrings []\<close> and \<open>RefreshConfigs []\<close>. The property
  \<^verbatim>\<open>config\<close> of a \<^verbatim>\<open>RefreshConfig\<close> is the field \<open>fullReloadConfig\<close>; the options
  of \<^verbatim>\<open>vite-plugin-full-reload\<close> in it are only passed on.
\<close>

datatype entry = Single string | Multiple "string list"

record full_reload_options =
  reload_always :: "bool option"
  reload_delay :: "nat option"
  reload_log :: "bool option"
  reload_root :: "string option"

record refresh_config =
  paths :: "string list"
  fullReloadConfig :: "full_reload_options option"

datatype refresh_setting =
    RefreshBoolean bool
  | RefreshString string
  | RefreshStrings "string list"
  | RefreshConfig refresh_config
  | RefreshConfigs "refresh_config list"

record plugin_config =
  namespace :: "string option"
  input :: "entry option"
  publicDirectory :: "string option"
  emptyOutDir :: "bool option"
  buildDirectory :: "string option"
  hotFile :: "string option"
  ssr :: "entry option"
  ssrExternal :: "bool option"
  ssrOutputDirectory :: "string option"
  refresh :: "refresh_setting option"
  transformOnServe :: "(string \<Rightarrow> string \<Rightarrow> string) option"

text \<open>
  The argument of \<^verbatim>\<open>wordpress\<close> as JavaScript may pass it: \<^verbatim>\<open>undefined\<close>,
  \<^verbatim>\<open>null\<close>, a value whose \<^verbatim>\<open>typeof\<close> is not \<^verbatim>\<open>"object"\<close>, an array, or an object.
\<close>

datatype js_config = JUndefined | JNull | JNotObject | JArray | JObject plugin_config

definition refreshPaths :: "string list" where
  "refreshPaths = [''resources/views/**'']"

text \<open>
  \<^verbatim>\<open>resolvePluginConfig\<close> assigns to the properties of its argument. The five
  conditional assignments, in the order of the source: lines 385-387 (the test compares
  \<^verbatim>\<open>config.ssr\<close> with the string \<^verbatim>\<open>"undefined"\<close>), 389-393, 401-406, 414-419 and
  421-423.
\<close>

definition assignSsr :: "plugin_config \<Rightarrow> plugin_config" where
  "assignSsr c = (if ssr c = Some (Single ''undefined'') then c\<lparr>ssr := input c\<rparr> else c)"

definition assignPublicDirectory :: "plugin_config \<Rightarrow> plugin_config" where
  "assignPublicDirectory c =
     (case publicDirectory c of
        Some p \<Rightarrow> c\<lparr>publicDirectory := Some (trimLeadingSlashes (trim p))\<rparr>
      | None \<Rightarrow> c)"

definition assignBuildDirectory :: "plugin_config \<Rightarrow> plugin_config" where
  "assignBuildDirectory c =
     (case buildDirectory c of
        Some b \<Rightarrow> c\<lparr>buildDirectory := Some (trimTrailingSlashes (trimLeadingSlashes (trim b)))\<rparr>
      | None \<Rightarrow> c)"

definition assignSsrOutputDirectory :: "plugin_config \<Rightarrow> plugin_config" where
  "assignSsrOutputDirectory c =
     (case ssrOutputDirectory c of
        Some d \<Rightarrow>
          c\<lparr>ssrOutputDirectory := Some (trimTrailingSlashes (trimLeadingSlashes (trim d)))\<rparr>
      | None \<Rightarrow> c)"

definition assignRefresh :: "plugin_config \<Rightarrow> plugin_config" where
  "assignRefresh c =
     (if refresh c = Some (RefreshBoolean True)
      then c\<lparr>refresh := Some (RefreshConfigs [\<lparr>paths = refreshPaths, fullReloadConfig = None\<rparr>])\<rparr>
      else c)"

text \<open>
  Lines 425-444: the object that is returned, built from the argument after the
  assignments, in a process with working directory \<open>cwd\<close>.
\<close>

definition resolvedConfig :: "string \<Rightarrow> plugin_config \<Rightarrow> plugin_config" where
  "resolvedConfig cwd c =
     (let defaultPublic =
            resolve cwd
              (cwd @ ''/../../uploads/scw-vite-hmr/'' @ coalesce (namespace c) ''undefined'');
          publicDirectory' = coalesce (publicDirectory c) defaultPublic
      in \<lparr>namespace = namespace c,
          input = input c,
          publicDirectory = Some publicDirectory',
          emptyOutDir = Some (coalesce (emptyOutDir c) True),
          buildDirectory = Some (coalesce (buildDirectory c) ''build''),
          hotFile = Some (coalesce (hotFile c) (join publicDirectory' ''hot'')),
          ssr = (case ssr c of Some e \<Rightarrow> Some e | None \<Rightarrow> input c),
          ssrExternal = Some (coalesce (ssrExternal c) False),
          ssrOutputDirectory =
            Some (coalesce (ssrOutputDirectory c) (join publicDirectory' ''ssr'')),
          refresh = Some (coalesce (refresh c) (RefreshBoolean False)),
          transformOnServe = Some (coalesce (transformOnServe c) (\<lambda>code url. code))\<rparr>)"

text \<open>
  The body of \<^verbatim>\<open>resolvePluginConfig\<close> from line 373 on, for an object. The model
  returns the outcome together with the argument as the call leaves it, also when it
  throws. The two emptiness tests sit inside the \<^verbatim>\<open>typeof\<close> blocks of the source,
  where the property is a string.
\<close>

definition resolvePluginConfigObject ::
  "string \<Rightarrow> plugin_config \<Rightarrow> (error + plugin_config) \<times> plugin_config" where
  "resolvePluginConfigObject cwd config0 =
     (if namespace config0 = None then (Inl MissingNamespace, config0)
      else if input config0 = None then (Inl MissingInput, config0)
      else
        (let config2 = assignPublicDirectory (assignSsr config0)
         in if publicDirectory config2 = Some []
            then (Inl PublicDirectoryNotSubdirectory, config2)
            else
              (let config3 = assignBuildDirectory config2
               in if buildDirectory config3 = Some []
                  then (Inl BuildDirectoryNotSubdirectory, config3)
                  else
                    (let config5 = assignRefresh (assignSsrOutputDirectory config3)
                     in (Inr (resolvedConfig cwd config5), config5)))))"

text \<open>
  \<^verbatim>\<open>resolvePluginConfig(config)\<close>, lines 362-445. \<^verbatim>\<open>typeof null\<close> is \<^verbatim>\<open>"object"\<close>
  and \<^verbatim>\<open>null\<close> is no array, so \<^verbatim>\<open>null\<close> passes line 367 and the read of
  \<^verbatim>\<open>config.namespace\<close> on line 373 throws a \<^verbatim>\<open>TypeError\<close>.
\<close>

definition resolvePluginConfig ::
  "string \<Rightarrow> js_config \<Rightarrow> (error + plugin_config) \<times> js_config" where
  "resolvePluginConfig cwd config =
     (case config of
        JUndefined \<Rightarrow> (Inl MissingConfiguration, config)
      | JNotObject \<Rightarrow> (Inl ConfigurationNotObject, config)
      | JArray \<Rightarrow> (Inl ConfigurationNotObject, config)
      | JNull \<Rightarrow> (Inl TypeError, config)
      | JObject c \<Rightarrow>
          (case resolvePluginConfigObject cwd c of (r, c') \<Rightarrow> (r, JObject c')))"

text \<open>
  \<^verbatim>\<open>resolveFullReloadConfig\<close>, lines 475-503. Each \<^verbatim>\<open>RefreshConfig\<close> \<open>c\<close> of the
  final list becomes the plugin \<^verbatim>\<open>fullReload(c.paths, c.config)\<close> with \<open>c\<close> attached as
  \<^verbatim>\<open>__wordpress_plugin_config\<close>; the model keeps \<open>c\<close>. An array holds a string exactly
  when it is a non-empty array of strings.
\<close>

datatype plugin = Wordpress plugin_config | Globals | FullReload refresh_config

definition resolveFullReloadConfig :: "plugin_config \<Rightarrow> error + plugin list" where
  "resolveFullReloadConfig pluginConfig =
     (case refresh pluginConfig of
        None \<Rightarrow> Inl TypeError
      | Some (RefreshBoolean b) \<Rightarrow> Inr []
      | Some (RefreshString s) \<Rightarrow> Inr [FullReload \<lparr>paths = [s], fullReloadConfig = None\<rparr>]
      | Some (RefreshConfig c) \<Rightarrow> Inr [FullReload c]
      | Some (RefreshStrings ps) \<Rightarrow>
          (if list_ex (\<lambda>c. True) ps then Inr [FullReload \<lparr>paths = ps, fullReloadConfig = None\<rparr>]
           else Inr [])
      | Some (RefreshConfigs cs) \<Rightarrow> Inr (map FullReload cs))"

text \<open>
  \<^verbatim>\<open>wordpress(config)\<close>, lines 105-124: the result, the argument as the call leaves
  it, and the file system.
\<close>

definition wordpress ::
  "string \<Rightarrow> filesystem \<Rightarrow> js_config \<Rightarrow> (error + plugin list) \<times> js_config \<times> filesystem" where
  "wordpress cwd fs config =
     (case resolvePluginConfig cwd config of
        (Inl e, config') \<Rightarrow> (Inl e, config', fs)
      | (Inr pluginConfig, config') \<Rightarrow>
          (case (if existsSync fs (publicDirectory pluginConfig) = False
                 then mkdirSync fs (publicDirectory pluginConfig) else Inr fs) of
             Inl e \<Rightarrow> (Inl e, config', fs)
           | Inr fs' \<Rightarrow>
               (case resolveFullReloadConfig pluginConfig of
                  Inl e \<Rightarrow> (Inl e, config', fs')
                | Inr reload \<Rightarrow>
                    (Inr (Wordpress pluginConfig # Globals # reload), config', fs'))))"

section \<open>Server configuration from the environment\<close>





section \<open>Hot file\<close>

text \<open>
  What \<^verbatim>\<open>configureServer\<close>, lines 241-287, does to the process: the file system, the
  module variable \<^verbatim>\<open>exitHandlersBound\<close> (line 96), the listeners of the process event
  \<^verbatim>\<open>exit\<close> (each is a \<^verbatim>\<open>clean\<close> closure, kept as the \<^verbatim>\<open>hotFile\<close> it has captured),
  the signals bound to \<^verbatim>\<open>process.exit\<close>, and the one-shot listeners of the HTTP
  server's \<^verbatim>\<open>listening\<close> event (each kept as the \<^verbatim>\<open>hotFile\<close> it writes).
\<close>

datatype signal = SIGINT | SIGTERM | SIGHUP

record process_state =
  disk :: filesystem
  exitHandlersBound :: bool
  exitListeners :: "string option list"
  signalListeners :: "signal list"
  listeningListeners :: "string option list"

text \<open>The process as the module is loaded, on a given file system.\<close>

definition initialProcess :: "filesystem \<Rightarrow> process_state" where
  "initialProcess fs =
     \<lparr>disk = fs, exitHandlersBound = False, exitListeners = [], signalListeners = [],
      listeningListeners = []\<rparr>"

text \<open>
  \<^verbatim>\<open>configureServer(server)\<close> for the plugin built from \<open>pluginConfig\<close>;
  \<open>hasHttpServer\<close> says whether \<^verbatim>\<open>server.httpServer\<close> is there.
\<close>

definition configureServer :: "plugin_config \<Rightarrow> bool \<Rightarrow> process_state \<Rightarrow> process_state" where
  "configureServer pluginConfig hasHttpServer st =
     (let st1 =
            (if hasHttpServer
             then st\<lparr>listeningListeners := listeningListeners st @ [hotFile pluginConfig]\<rparr>
             else st)
      in if \<not> exitHandlersBound st1
         then st1\<lparr>exitListeners := exitListeners st1 @ [hotFile pluginConfig],
                  signalListeners := signalListeners st1 @ [SIGINT, SIGTERM, SIGHUP],
                  exitHandlersBound := True\<rparr>
         else st1)"









section \<open>Vocabulary of the properties\<close>




definition beginsWithSlash :: "string \<Rightarrow> bool" where
  "beginsWithSlash s = (s \<noteq> [] \<and> hd s = CHR ''/'')"

definition endsWithSlash :: "string \<Rightarrow> bool" where
  "endsWithSlash s = (s \<noteq> [] \<and> last s = CHR ''/'')"

text \<open>The argument of \<^verbatim>\<open>resolvePluginConfig\<close> after all five assignments.\<close>

definition assignments :: "plugin_config \<Rightarrow> plugin_config" where
  "assignments c =
     assignRefresh (assignSsrOutputDirectory (assignBuildDirectory
       (assignPublicDirectory (assignSsr c))))"

section \<open>Example configurations\<close>

text \<open>The configuration object that supplies \<^verbatim>\<open>namespace\<close> and \<^verbatim>\<open>input\<close> and
  nothing else.\<close>

definition minimalConfig :: "string \<Rightarrow> entry \<Rightarrow> plugin_config" where
  "minimalConfig ns entryPoint =
     \<lparr>namespace = Some ns, input = Some entryPoint, publicDirectory = None,
      emptyOutDir = None, buildDirectory = None, hotFile = None, ssr = None,
      ssrExternal = None, ssrOutputDirectory = None, refresh = None,
      transformOnServe = None\<rparr>"

section \<open>The normalizer as a function of its argument\<close>

text \<open>
  Each assignment changes one field. \<^verbatim>\<open>resolvePluginConfig\<close> returns exactly when
  \<^verbatim>\<open>namespace\<close> and \<^verbatim>\<open>input\<close> are there and neither \<^verbatim>\<open>publicDirectory\<close> nor
  \<^verbatim>\<open>buildDirectory\<close> is trimmed to the empty string; the result is then built from
  the argument after the assignments.
\<close>

lemma assignSsr_fields [simp]:
  "namespace (assignSsr c) = namespace c"
  "input (assignSsr c) = input c"
  "publicDirectory (assignSsr c) = publicDirectory c"
  "emptyOutDir (assignSsr c) = emptyOutDir c"
  "buildDirectory (assignSsr c) = buildDirectory c"
  "hotFile (assignSsr c) = hotFile c"
  "ssr (assignSsr c) = (if ssr c = Some (Single ''undefined'') then input c else ssr c)"
  "ssrExternal (assignSsr c) = ssrExternal c"
  "ssrOutputDirectory (assignSsr c) = ssrOutputDirectory c"
  "refresh (assignSsr c) = refresh c"
  "transformOnServe (assignSsr c) = transformOnServe c"
  by (simp_all add: assignSsr_def)

lemma assignPublicDirectory_fields [simp]:
  "namespace (assignPublicDirectory c) = namespace c"
  "input (assignPublicDirectory c) = input c"
  "publicDirectory (assignPublicDirectory c) =
     map_option (\<lambda>p. trimLeadingSlashes (trim p)) (publicDirectory c)"
  "emptyOutDir (assignPublicDirectory c) = emptyOutDir c"
  "buildDirectory (assignPublicDirectory c) = buildDirectory c"
  "hotFile (assignPublicDirectory c) = hotFile c"
  "ssr (assignPublicDirectory c) = ssr c"
  "ssrExternal (assignPublicDirectory c) = ssrExternal c"
  "ssrOutputDirectory (assignPublicDirectory c) = ssrOutputDirectory c"
  "refresh (assignPublicDirectory c) = refresh c"
  "transformOnServe (assignPublicDirectory c) = transformOnServe c"
  by (simp_all add: assignPublicDirectory_def split: option.splits)

lemma assignBuildDirectory_fields [simp]:
  "namespace (assignBuildDirectory c) = namespace c"
  "input (assignBuildDirectory c) = input c"
  "publicDirectory (assignBuildDirectory c) = publicDirectory c"
  "emptyOutDir (assignBuildDirectory c) = emptyOutDir c"
  "buildDirectory (assignBuildDirectory c) =
     map_option (\<lambda>b. trimTrailingSlashes (trimLeadingSlashes (trim b))) (buildDirectory c)"
  "hotFile (assignBuildDirectory c) = hotFile c"
  "ssr (assignBuildDirectory c) = ssr c"
  "ssrExternal (assignBuildDirectory c) = ssrExternal c"
  "ssrOutputDirectory (assignBuildDirectory c) = ssrOutputDirectory c"
  "refresh (assignBuildDirectory c) = refresh c"
  "transformOnServe (assignBuildDirectory c) = transformOnServe c"
  by (simp_all add: assignBuildDirectory_def split: option.splits)

lemma assignSsrOutputDirectory_fields [simp]:
  "namespace (assignSsrOutputDirectory c) = namespace c"
  "input (assignSsrOutputDirectory c) = input c"
  "publicDirectory (assignSsrOutputDirectory c) = publicDirectory c"
  "emptyOutDir (assignSsrOutputDirectory c) = emptyOutDir c"
  "buildDirectory (assignSsrOutputDirectory c) = buildDirectory c"
  "hotFile (assignSsrOutputDirectory c) = hotFile c"
  "ssr (assignSsrOutputDirectory c) = ssr c"
  "ssrExternal (assignSsrOutputDirectory c) = ssrExternal c"
  "ssrOutputDirectory (assignSsrOutputDirectory c) =
     map_option (\<lambda>d. trimTrailingSlashes (trimLeadingSlashes (trim d))) (ssrOutputDirectory c)"
  "refresh (assignSsrOutputDirectory c) = refresh c"
  "transformOnServe (assignSsrOutputDirectory c) = transformOnServe c"
  by (simp_all add: assignSsrOutputDirectory_def split: option.splits)

lemma assignRefresh_fields [simp]:
  "namespace (assignRefresh c) = namespace c"
  "input (assignRefresh c) = input c"
  "publicDirectory (assignRefresh c) = publicDirectory c"
  "emptyOutDir (assignRefresh c) = emptyOutDir c"
  "buildDirectory (assignRefresh c) = buildDirectory c"
  "hotFile (assignRefresh c) = hotFile c"
  "ssr (assignRefresh c) = ssr c"
  "ssrExternal (assignRefresh c) = ssrExternal c"
  "ssrOutputDirectory (assignRefresh c) = ssrOutputDirectory c"
  "refresh (assignRefresh c) =
     (if refresh c = Some (RefreshBoolean True)
      then Some (RefreshConfigs [\<lparr>paths = refreshPaths, fullReloadConfig = None\<rparr>])
      else refresh c)"
  "transformOnServe (assignRefresh c) = transformOnServe c"
  by (simp_all add: assignRefresh_def)

lemma resolvedConfig_fields [simp]:
  "namespace (resolvedConfig cwd c) = namespace c"
  "input (resolvedConfig cwd c) = input c"
  "publicDirectory (resolvedConfig cwd c) =
     Some (coalesce (publicDirectory c)
             (resolve cwd (cwd @ ''/../../uploads/scw-vite-hmr/'' @
                coalesce (namespace c) ''undefined'')))"
  "emptyOutDir (resolvedConfig cwd c) = Some (coalesce (emptyOutDir c) True)"
  "buildDirectory (resolvedConfig cwd c) = Some (coalesce (buildDirectory c) ''build'')"
  "hotFile (resolvedConfig cwd c) =
     Some (coalesce (hotFile c)
             (join (coalesce (publicDirectory c)
                      (resolve cwd (cwd @ ''/../../uploads/scw-vite-hmr/'' @
                         coalesce (namespace c) ''undefined''))) ''hot''))"
  "ssr (resolvedConfig cwd c) = (case ssr c of Some e \<Rightarrow> Some e | None \<Rightarrow> input c)"
  "ssrExternal (resolvedConfig cwd c) = Some (coalesce (ssrExternal c) False)"
  "ssrOutputDirectory (resolvedConfig cwd c) =
     Some (coalesce (ssrOutputDirectory c)
             (join (coalesce (publicDirectory c)
                      (resolve cwd (cwd @ ''/../../uploads/scw-vite-hmr/'' @
                         coalesce (namespace c) ''undefined''))) ''ssr''))"
  "refresh (resolvedConfig cwd c) = Some (coalesce (refresh c) (RefreshBoolean False))"
  "transformOnServe (resolvedConfig cwd c) =
     Some (coalesce (transformOnServe c) (\<lambda>code url. code))"
  "plugin_config.more (resolvedConfig cwd c) = ()"
  by (simp_all add: resolvedConfig_def Let_def)

lemma resolvePluginConfigObject_Inr:
  "fst (resolvePluginConfigObject cwd c) = Inr r \<longleftrightarrow>
     namespace c \<noteq> None \<and> input c \<noteq> None
     \<and> map_option (\<lambda>p. trimLeadingSlashes (trim p)) (publicDirectory c) \<noteq> Some []
     \<and> map_option (\<lambda>b. trimTrailingSlashes (trimLeadingSlashes (trim b))) (buildDirectory c)
          \<noteq> Some []
     \<and> r = resolvedConfig cwd (assignments c)"
  by (auto simp: resolvePluginConfigObject_def Let_def assignments_def)

lemma resolvePluginConfigObject_snd:
  "fst (resolvePluginConfigObject cwd c) = Inr r \<Longrightarrow>
   snd (resolvePluginConfigObject cwd c) = assignments c"
  by (auto simp: resolvePluginConfigObject_def Let_def assignments_def split: if_splits)

lemma resolvePluginConfigObject_kept:
  "namespace (snd (resolvePluginConfigObject cwd c)) = namespace c"
  "input (snd (resolvePluginConfigObject cwd c)) = input c"
  "emptyOutDir (snd (resolvePluginConfigObject cwd c)) = emptyOutDir c"
  "hotFile (snd (resolvePluginConfigObject cwd c)) = hotFile c"
  "ssrExternal (snd (resolvePluginConfigObject cwd c)) = ssrExternal c"
  "transformOnServe (snd (resolvePluginConfigObject cwd c)) = transformOnServe c"
  by (simp_all add: resolvePluginConfigObject_def Let_def)

lemma resolvePluginConfig_JObject:
  "resolvePluginConfig cwd (JObject c) =
     (fst (resolvePluginConfigObject cwd c), JObject (snd (resolvePluginConfigObject cwd c)))"
  by (simp add: resolvePluginConfig_def split: prod.splits)


section \<open>The path model\<close>

text \<open>
  Segments never hold a slash, and normalization keeps only non-empty ones; so a
  normalized relative path does not begin with a slash, and a path joined with a last
  segment that is an ordinary name ends with that name.
\<close>

lemma splitSegments_not_Nil: "splitSegments s \<noteq> []"
  by (induction s) (auto split: list.splits)

lemma splitSegments_no_slash: "seg \<in> set (splitSegments s) \<Longrightarrow> CHR ''/'' \<notin> set seg"
  by (induction s arbitrary: seg) (auto split: if_splits list.splits)

lemma splitSegments_append_slash:
  "splitSegments (a @ CHR ''/'' # b) = splitSegments a @ splitSegments b"
proof (induction a)
  case Nil
  show ?case by simp
next
  case (Cons c a)
  then show ?case
    using splitSegments_not_Nil [of a] by (cases "splitSegments a") auto
qed

lemma splitSegments_plain: "CHR ''/'' \<notin> set q \<Longrightarrow> splitSegments q = [q]"
  by (induction q) auto

lemma normalizeSegments_append:
  "normalizeSegments al res (xs @ ys) =
     normalizeSegments al (rev (normalizeSegments al res xs)) ys"
  by (induction xs arbitrary: res) auto

lemma normalizeSegments_snoc:
  "q \<noteq> [] \<Longrightarrow> q \<noteq> ''.'' \<Longrightarrow> q \<noteq> ''..'' \<Longrightarrow>
   normalizeSegments al res (xs @ [q]) = normalizeSegments al res xs @ [q]"
  by (simp add: normalizeSegments_append)

lemma normalizeSegments_Cons:
  "normalizeSegments al res (x # ss) =
     normalizeSegments al
       (if x = [] \<or> x = ''.'' then res
        else if x = ''..'' then
          (if res \<noteq> [] \<and> hd res \<noteq> ''..'' then tl res
           else if al then ''..'' # res else res)
        else x # res) ss"
  by simp

lemma normalizeSegments_segments:
  "\<forall>s\<in>set res. s \<noteq> [] \<and> CHR ''/'' \<notin> set s \<Longrightarrow> \<forall>s\<in>set ss. CHR ''/'' \<notin> set s \<Longrightarrow>
   \<forall>s\<in>set (normalizeSegments al res ss). s \<noteq> [] \<and> CHR ''/'' \<notin> set s"
proof (induction ss arbitrary: res)
  case Nil
  then show ?case by simp
next
  case (Cons x ss)
  from Cons.prems(2) have x: "CHR ''/'' \<notin> set x" and ss: "\<forall>s\<in>set ss. CHR ''/'' \<notin> set s"
    by simp_all
  have tl: "\<forall>s\<in>set (tl res). s \<noteq> [] \<and> CHR ''/'' \<notin> set s"
    using Cons.prems(1) by (cases res) simp_all
  have "\<forall>s\<in>set (if x = [] \<or> x = ''.'' then res
        else if x = ''..'' then
          (if res \<noteq> [] \<and> hd res \<noteq> ''..'' then tl res
           else if al then ''..'' # res else res)
        else x # res). s \<noteq> [] \<and> CHR ''/'' \<notin> set s"
    using Cons.prems(1) x tl by auto
  from Cons.IH [OF this ss] show ?case
    unfolding normalizeSegments_Cons .
qed

lemma joinSegments_hd:
  "segs \<noteq> [] \<Longrightarrow> hd segs \<noteq> [] \<Longrightarrow>
   joinSegments segs \<noteq> [] \<and> hd (joinSegments segs) = hd (hd segs)"
  by (cases segs rule: joinSegments.cases) auto

lemma joinSegments_snoc:
  "joinSegments (xs @ [q]) = (if xs = [] then q else joinSegments xs @ CHR ''/'' # q)"
  by (induction xs rule: joinSegments.induct) auto

lemma normalizeString_relative:
  "normalizeString path al = [] \<or> hd (normalizeString path al) \<noteq> CHR ''/''"
proof (cases "normalizeSegments al [] (splitSegments path)")
  case Nil
  then show ?thesis by (simp add: normalizeString_def)
next
  case (Cons s ss)
  have "\<forall>s\<in>set (normalizeSegments al [] (splitSegments path)). s \<noteq> [] \<and> CHR ''/'' \<notin> set s"
    by (rule normalizeSegments_segments) (simp_all add: splitSegments_no_slash)
  with Cons have s: "s \<noteq> []" "CHR ''/'' \<notin> set s" by simp_all
  then have "hd s \<noteq> CHR ''/''" by (cases s) auto
  with s joinSegments_hd [of "s # ss"] Cons show ?thesis
    by (simp add: normalizeString_def)
qed

lemma normalize_relative: "\<not> isAbsolute path \<Longrightarrow> \<not> beginsWithSlash (normalize path)"
  using normalizeString_relative [of path True]
  by (auto simp: normalize_def beginsWithSlash_def Let_def)

lemma join_relative:
  assumes "a \<noteq> []" and "\<not> beginsWithSlash a"
  shows "\<not> beginsWithSlash (join a b)"
proof -
  from assms have "\<not> isAbsolute a" and "\<not> isAbsolute (a @ CHR ''/'' # b)"
    by (simp_all add: isAbsolute_def beginsWithSlash_def)
  then have "\<not> beginsWithSlash (normalize a)"
    and "\<not> beginsWithSlash (normalize (a @ CHR ''/'' # b))"
    by (simp_all add: normalize_relative)
  with assms(1) show ?thesis by (simp add: join_def)
qed

text \<open>A path joined with a plain last segment ends with that segment.\<close>

lemma normalizeString_last_segment:
  assumes "q \<noteq> []" "q \<noteq> ''.''" "q \<noteq> ''..''" "CHR ''/'' \<notin> set q"
    and "path = q \<or> (\<exists>a. path = a @ CHR ''/'' # q)"
  shows "normalizeString path al \<noteq> [] \<and> last (normalizeString path al) = last q"
proof -
  from assms(4,5) obtain pre where "splitSegments path = pre @ [q]"
    by (auto simp: splitSegments_append_slash splitSegments_plain intro: exI [of _ "[]"])
  then have "normalizeSegments al [] (splitSegments path) = normalizeSegments al [] pre @ [q]"
    using assms(1-3) by (simp add: normalizeSegments_snoc)
  then show ?thesis using assms(1)
    by (simp add: normalizeString_def joinSegments_snoc)
qed

lemma join_last_segment:
  assumes "q \<noteq> []" "q \<noteq> ''.''" "q \<noteq> ''..''" "CHR ''/'' \<notin> set q"
  shows "\<not> endsWithSlash (join a q)"
proof -
  define path where "path = (if a = [] then q else a @ CHR ''/'' # q)"
  then have p: "path = q \<or> (\<exists>a. path = a @ CHR ''/'' # q)" by auto
  have j: "join a q = normalize path"
    using assms(1) by (simp add: join_def path_def)
  from assms(1,4) have lq: "last q \<noteq> CHR ''/''" by (metis last_in_set)
  from assms(1) have "path \<noteq> []" and "last path = last q" by (auto simp: path_def)
  with lq normalizeString_last_segment [OF assms p, of "\<not> isAbsolute path"]
  show ?thesis
    unfolding j by (auto simp: normalize_def endsWithSlash_def Let_def)
qed

lemma resolve_not_Nil: "resolve cwd p \<noteq> []"
  by (simp add: resolve_def Let_def)

lemma resolve_absolute: "isAbsolute cwd \<Longrightarrow> beginsWithSlash (resolve cwd (cwd @ rest))"
  by (auto simp: resolve_def Let_def isAbsolute_def beginsWithSlash_def)

lemma plain_ssr_hot:
  "\<not> endsWithSlash (join a ''ssr'')" "\<not> endsWithSlash (join a ''hot'')"
  by (rule join_last_segment; simp)+

text \<open>The default public directory of the namespace \<^verbatim>\<open>ns\<close> for a theme in
  \<^verbatim>\<open>/srv/wp-content/themes/t\<close>.\<close>

lemma resolve_example:
  "resolve ''/srv/wp-content/themes/t''
     (''/srv/wp-content/themes/t'' @ ''/../../uploads/scw-vite-hmr/'' @ ''ns'')
   = ''/srv/wp-content/uploads/scw-vite-hmr/ns''"
  by code_simp

section \<open>Trimming\<close>

text \<open>What is left after the slashes are stripped neither begins nor ends with one.\<close>

lemma trimLeadingSlashes_begin: "\<not> beginsWithSlash (trimLeadingSlashes s)"
  using hd_dropWhile [of "\<lambda>c. c = CHR ''/''" s]
  by (auto simp: beginsWithSlash_def trimLeadingSlashes_def)

lemma trimTrailingSlashes_end: "\<not> endsWithSlash (trimTrailingSlashes s)"
  using hd_dropWhile [of "\<lambda>c. c = CHR ''/''" "rev s"]
  by (auto simp: endsWithSlash_def trimTrailingSlashes_def last_rev)

lemma trimTrailingSlashes_begin:
  assumes "\<not> beginsWithSlash s"
  shows "\<not> beginsWithSlash (trimTrailingSlashes s)"
proof (cases "trimTrailingSlashes s = []")
  case True
  then show ?thesis by (simp add: beginsWithSlash_def)
next
  case False
  have "s = trimTrailingSlashes s @ rev (takeWhile (\<lambda>c. c = CHR ''/'') (rev s))"
    unfolding trimTrailingSlashes_def
    by (metis rev_append rev_rev_ident takeWhile_dropWhile_id)
  with False have "hd s = hd (trimTrailingSlashes s)" and "s \<noteq> []"
    by (metis hd_append2, metis append_is_Nil_conv)
  with assms show ?thesis by (simp add: beginsWithSlash_def)
qed

lemma trimmedDirectory_slashes:
  "\<not> beginsWithSlash (trimTrailingSlashes (trimLeadingSlashes s))"
  "\<not> endsWithSlash (trimTrailingSlashes (trimLeadingSlashes s))"
  by (simp_all add: trimTrailingSlashes_begin trimLeadingSlashes_begin trimTrailingSlashes_end)

section \<open>Listeners\<close>



section \<open>Properties of the environment gate\<close>

text \<open>
  Claim C6. For every environment, the gate returns normally when the command is
  \<^verbatim>\<open>build\<close> or when \<^verbatim>\<open>WORDPRESS_BYPASS_ENV_CHECK\<close> is exactly the string \<^verbatim>\<open>"1"\<close>;
  otherwise it throws exactly when \<^verbatim>\<open>CI\<close> is defined, whatever its value. With
  command \<^verbatim>\<open>serve\<close> and environment \<^verbatim>\<open>{CI: ""}\<close> it throws; the same environment
  with the bypass set to \<^verbatim>\<open>"1"\<close> passes.
\<close>

theorem env_gate_characterisation:
  "(command = Build \<or> env ''WORDPRESS_BYPASS_ENV_CHECK'' = Some ''1''
      \<longrightarrow> ensureCommandShouldRunInEnvironment command env = Inr ())
   \<and> (\<not> (command = Build \<or> env ''WORDPRESS_BYPASS_ENV_CHECK'' = Some ''1'')
      \<longrightarrow> (isl (ensureCommandShouldRunInEnvironment command env) \<longleftrightarrow> ''CI'' \<in> dom env))
   \<and> isl (ensureCommandShouldRunInEnvironment Serve [''CI'' \<mapsto> ''''])
   \<and> ensureCommandShouldRunInEnvironment Serve
        [''CI'' \<mapsto> '''', ''WORDPRESS_BYPASS_ENV_CHECK'' \<mapsto> ''1''] = Inr ()"
  by (auto simp: ensureCommandShouldRunInEnvironment_def)

theorem env_gate_witness:
  "isl (ensureCommandShouldRunInEnvironment Serve [''CI'' \<mapsto> ''true''])
   \<and> ensureCommandShouldRunInEnvironment Build [''CI'' \<mapsto> ''true''] = Inr ()
   \<and> \<not> isl (ensureCommandShouldRunInEnvironment Serve Map.empty)"
  using env_gate_characterisation [of Serve "[''CI'' \<mapsto> ''true'']"]
    env_gate_characterisation [of Build "[''CI'' \<mapsto> ''true'']"]
    env_gate_characterisation [of Serve Map.empty]
  by simp

section \<open>Properties of the dev-server URL\<close>

text \<open>
  Claim C1. For every listening address and every server configuration,
  \<^verbatim>\<open>resolveDevServerUrl\<close> returns \<^verbatim>\<open>scheme://host:port\<close>, each field resolved on its
  own. Scheme: \<^verbatim>\<open>https\<close> when the HMR protocol override is \<^verbatim>\<open>wss\<close>, \<^verbatim>\<open>http\<close> for
  any other set protocol, else \<^verbatim>\<open>https\<close> exactly when the TLS setting is truthy. Host:
  the HMR host override, else the bind host when it is a string, else the address's
  host, in brackets when the family is \<^verbatim>\<open>"IPv6"\<close> or the number 6. Port: the HMR
  client port, else the port of the socket. The address \<^verbatim>\<open>::1\<close>, family \<^verbatim>\<open>IPv6\<close>,
  port 5173, with no override and TLS off gives \<^verbatim>\<open>http://[::1]:5173\<close>. A protocol
  override that is the empty string is falsy and counts as not set.
\<close>

theorem dev_server_url_precedence:
  "resolveDevServerUrl a c =
     spec_scheme c @ ''://'' @ spec_host a c @ '':'' @ numberToString (spec_port a c)
   \<and> resolveDevServerUrl \<lparr>address = ''::1'', family = FamilyString ''IPv6'', port = 5173\<rparr>
        \<lparr>server_hmr = HmrUndefined, server_host = HostUndefined,
         server_https = HttpsBoolean False\<rparr> = ''http://[::1]:5173''"
proof
  show "resolveDevServerUrl a c =
     spec_scheme c @ ''://'' @ spec_host a c @ '':'' @ numberToString (spec_port a c)"
    by (cases "server_hmr c"; cases "server_host c")
       (auto simp: resolveDevServerUrl_def spec_scheme_def spec_host_def spec_port_def
          hmrOverride_def isIpv6_def Let_def split: option.splits)
next
  show "resolveDevServerUrl \<lparr>address = ''::1'', family = FamilyString ''IPv6'', port = 5173\<rparr>
        \<lparr>server_hmr = HmrUndefined, server_host = HostUndefined,
         server_https = HttpsBoolean False\<rparr> = ''http://[::1]:5173''"
    by (simp add: resolveDevServerUrl_def isIpv6_def numberToString.simps)
qed

theorem dev_server_url_witness:
  "resolveDevServerUrl \<lparr>address = ''::1'', family = FamilyNumber 6, port = 5173\<rparr>
     \<lparr>server_hmr = HmrOptions \<lparr>protocol = Some ''wss'', host = Some ''example.test'',
                                 clientPort = Some 443\<rparr>,
      server_host = HostString ''0.0.0.0'', server_https = HttpsUndefined\<rparr>
   = ''https://example.test:443''
   \<and> resolveDevServerUrl \<lparr>address = ''::1'', family = FamilyNumber 6, port = 5173\<rparr>
     \<lparr>server_hmr = HmrOptions \<lparr>protocol = None, host = None, clientPort = None\<rparr>,
      server_host = HostBoolean True, server_https = HttpsOptions\<rparr>
   = ''https://[::1]:5173''"
  using dev_server_url_precedence
    [of "\<lparr>address = ''::1'', family = FamilyNumber 6, port = 5173\<rparr>"
        "\<lparr>server_hmr = HmrOptions \<lparr>protocol = Some ''wss'', host = Some ''example.test'',
                                 clientPort = Some 443\<rparr>,
      server_host = HostString ''0.0.0.0'', server_https = HttpsUndefined\<rparr>"]
    dev_server_url_precedence
    [of "\<lparr>address = ''::1'', family = FamilyNumber 6, port = 5173\<rparr>"
        "\<lparr>server_hmr = HmrOptions \<lparr>protocol = None, host = None, clientPort = None\<rparr>,
      server_host = HostBoolean True, server_https = HttpsOptions\<rparr>"]
  by (simp add: spec_scheme_def spec_host_def spec_port_def hmrOverride_def numberToString.simps)

section \<open>Properties of the server configuration from the environment\<close>



section \<open>Properties of the refresh setting\<close>

text \<open>
  Claim C8. Through \<^verbatim>\<open>resolvePluginConfig\<close> and \<^verbatim>\<open>resolveFullReloadConfig\<close> each
  accepted shape of \<^verbatim>\<open>refresh\<close> reaches the list form: \<^verbatim>\<open>true\<close> gives
  \<^verbatim>\<open>[{paths: ["resources/views/**"]}]\<close>, a string \<open>s\<close> gives \<^verbatim>\<open>[{paths: [s]}]\<close>, an
  array of strings \<open>s, ss\<close> gives one entry with exactly these paths, and \<^verbatim>\<open>false\<close>
  or no \<^verbatim>\<open>refresh\<close> gives no reload plugin. (The empty array holds no string and gives
  no reload plugin either.)
\<close>

theorem refresh_normalisation:
  "fst (resolvePluginConfig cwd (JObject c)) = Inr r \<Longrightarrow>
   (refresh c = Some (RefreshBoolean True) \<longrightarrow>
      refresh r = Some (RefreshConfigs [\<lparr>paths = [''resources/views/**''], fullReloadConfig = None\<rparr>])
      \<and> resolveFullReloadConfig r =
          Inr [FullReload \<lparr>paths = [''resources/views/**''], fullReloadConfig = None\<rparr>])
   \<and> (\<forall>s. refresh c = Some (RefreshString s) \<longrightarrow>
         resolveFullReloadConfig r = Inr [FullReload \<lparr>paths = [s], fullReloadConfig = None\<rparr>])
   \<and> (\<forall>s ss. refresh c = Some (RefreshStrings (s # ss)) \<longrightarrow>
         resolveFullReloadConfig r = Inr [FullReload \<lparr>paths = s # ss, fullReloadConfig = None\<rparr>])
   \<and> (refresh c = Some (RefreshBoolean False) \<or> refresh c = None \<longrightarrow>
         resolveFullReloadConfig r = Inr [])"
  by (auto simp: resolvePluginConfig_JObject resolvePluginConfigObject_Inr assignments_def
        resolveFullReloadConfig_def refreshPaths_def)

theorem refresh_normalisation_witness:
  "resolveFullReloadConfig
     (projr (fst (resolvePluginConfig ''/srv/wp-content/themes/t''
        (JObject ((minimalConfig ''ns'' (Single ''a.js''))
           \<lparr>refresh := Some (RefreshStrings [''a/**'', ''b/**''])\<rparr>)))))
   = Inr [FullReload \<lparr>paths = [''a/**'', ''b/**''], fullReloadConfig = None\<rparr>]"
proof -
  let ?c = "(minimalConfig ''ns'' (Single ''a.js''))
              \<lparr>refresh := Some (RefreshStrings [''a/**'', ''b/**''])\<rparr>"
  have "\<exists>r. fst (resolvePluginConfig ''/srv/wp-content/themes/t'' (JObject ?c)) = Inr r"
    by (simp add: resolvePluginConfig_JObject resolvePluginConfigObject_Inr minimalConfig_def)
  then obtain r where r: "fst (resolvePluginConfig ''/srv/wp-content/themes/t'' (JObject ?c)) = Inr r"
    by blast
  have "refresh ?c = Some (RefreshStrings (''a/**'' # [''b/**'']))" by simp
  with refresh_normalisation [OF r] have
    "resolveFullReloadConfig r = Inr [FullReload \<lparr>paths = [''a/**'', ''b/**''], fullReloadConfig = None\<rparr>]"
    by blast
  with r show ?thesis by simp
qed


section \<open>Properties of the hot file\<close>




text \<open>Only the first plugin configured in a process registers exit handlers.\<close>

lemma second_plugin_not_cleaned:
  "hotFile p1 = Some h1 \<Longrightarrow> hotFile p2 = Some h2 \<Longrightarrow> h1 \<noteq> h2 \<Longrightarrow>
   exitListeners (configureServer p2 True (configureServer p1 True (initialProcess fs))) = [Some h1]"
  by (simp add: configureServer_def initialProcess_def)

section \<open>Properties of the configuration errors\<close>



section \<open>Properties of a supplied public directory\<close>

text \<open>
  Claim C4, as the code has it. For the user configuration with \<^verbatim>\<open>publicDirectory\<close>
  \<^verbatim>\<open>"/foo/"\<close>, a \<^verbatim>\<open>namespace\<close>, an \<^verbatim>\<open>input\<close> and no \<^verbatim>\<open>buildDirectory\<close> that is
  trimmed to nothing, \<^verbatim>\<open>resolvePluginConfig\<close> returns a configuration whose
  \<^verbatim>\<open>publicDirectory\<close> is \<^verbatim>\<open>"foo/"\<close>: lines 390-392 strip the leading slashes of
  \<^verbatim>\<open>publicDirectory\<close> and keep the trailing one.
\<close>

theorem public_directory_leading_slashes_only:
  "namespace c \<noteq> None \<Longrightarrow> input c \<noteq> None \<Longrightarrow> publicDirectory c = Some ''/foo/'' \<Longrightarrow>
   (\<forall>b. buildDirectory c = Some b \<longrightarrow> trimTrailingSlashes (trimLeadingSlashes (trim b)) \<noteq> []) \<Longrightarrow>
   \<exists>r. fst (resolvePluginConfig cwd (JObject c)) = Inr r \<and> publicDirectory r = Some ''foo/''"
proof -
  have t: "trimLeadingSlashes (trim ''/foo/'') = ''foo/''"
    by (simp add: trim_def trimLeadingSlashes_def isWhiteSpace_def)
  assume "namespace c \<noteq> None" "input c \<noteq> None" "publicDirectory c = Some ''/foo/''"
    "\<forall>b. buildDirectory c = Some b \<longrightarrow> trimTrailingSlashes (trimLeadingSlashes (trim b)) \<noteq> []"
  with t show ?thesis
    by (cases "buildDirectory c")
       (simp_all add: resolvePluginConfig_JObject resolvePluginConfigObject_Inr assignments_def)
qed

theorem public_directory_witness:
  "\<exists>r. fst (resolvePluginConfig ''/srv/wp-content/themes/t''
          (JObject ((minimalConfig ''ns'' (Single ''a.js''))
             \<lparr>publicDirectory := Some ''/foo/'', buildDirectory := Some ''/dist/''\<rparr>))) = Inr r
       \<and> publicDirectory r = Some ''foo/''"
proof -
  have "trimTrailingSlashes (trimLeadingSlashes (trim ''/dist/'')) \<noteq> []"
    by (simp add: trim_def trimLeadingSlashes_def trimTrailingSlashes_def isWhiteSpace_def)
  then show ?thesis
    by (intro public_directory_leading_slashes_only) (simp_all add: minimalConfig_def)
qed

text \<open>The result for \<^verbatim>\<open>"/foo/"\<close> is \<^verbatim>\<open>"foo/"\<close>, not \<^verbatim>\<open>"foo"\<close>.\<close>

theorem public_directory_counterexample:
  "map_sum id publicDirectory
     (fst (resolvePluginConfig ''/srv/wp-content/themes/t''
        (JObject ((minimalConfig ''ns'' (Single ''a.js''))\<lparr>publicDirectory := Some ''/foo/''\<rparr>))))
   = Inr (Some ''foo/'')"
proof -
  have t: "trimLeadingSlashes (trim ''/foo/'') = ''foo/''"
    by (simp add: trim_def trimLeadingSlashes_def isWhiteSpace_def)
  have "fst (resolvePluginConfig ''/srv/wp-content/themes/t''
        (JObject ((minimalConfig ''ns'' (Single ''a.js''))\<lparr>publicDirectory := Some ''/foo/''\<rparr>)))
     = Inr (resolvedConfig ''/srv/wp-content/themes/t''
         (assignments ((minimalConfig ''ns'' (Single ''a.js''))\<lparr>publicDirectory := Some ''/foo/''\<rparr>)))"
    using t by (simp add: resolvePluginConfig_JObject resolvePluginConfigObject_Inr minimalConfig_def)
  then show ?thesis using t by (simp add: assignments_def)
qed

section \<open>Effects of the normalizer\<close>

text \<open>
  Claim C10, as the code has it. \<^verbatim>\<open>resolvePluginConfig\<close> touches no file system, and
  \<^verbatim>\<open>wordpress\<close> changes the file system in one way only: it creates the resolved
  \<^verbatim>\<open>publicDirectory\<close> when that does not exist; when the normalizer throws, the file
  system stays as it was. The normalizer does assign to its argument. An argument that
  is no object is left alone. Of an object, \<^verbatim>\<open>namespace\<close>, \<^verbatim>\<open>input\<close>,
  \<^verbatim>\<open>emptyOutDir\<close>, \<^verbatim>\<open>hotFile\<close>, \<^verbatim>\<open>ssrExternal\<close> and \<^verbatim>\<open>transformOnServe\<close> are never
  changed; when the call returns, \<^verbatim>\<open>publicDirectory\<close>, \<^verbatim>\<open>buildDirectory\<close> and
  \<^verbatim>\<open>ssrOutputDirectory\<close> hold their trimmed values and a \<^verbatim>\<open>refresh\<close> that was
  \<^verbatim>\<open>true\<close> holds the default list.
\<close>

theorem normalizer_effects:
  "((\<forall>c. v \<noteq> JObject c) \<longrightarrow> snd (resolvePluginConfig cwd v) = v)
   \<and> (\<forall>c. v = JObject c \<longrightarrow>
        (\<exists>c'. snd (resolvePluginConfig cwd v) = JObject c'
           \<and> namespace c' = namespace c \<and> input c' = input c
           \<and> emptyOutDir c' = emptyOutDir c \<and> hotFile c' = hotFile c
           \<and> ssrExternal c' = ssrExternal c \<and> transformOnServe c' = transformOnServe c
           \<and> (\<not> isl (fst (resolvePluginConfig cwd v)) \<longrightarrow>
                publicDirectory c' =
                  map_option (\<lambda>p. trimLeadingSlashes (trim p)) (publicDirectory c)
                \<and> buildDirectory c' =
                  map_option (\<lambda>b. trimTrailingSlashes (trimLeadingSlashes (trim b)))
                    (buildDirectory c)
                \<and> ssrOutputDirectory c' =
                  map_option (\<lambda>d. trimTrailingSlashes (trimLeadingSlashes (trim d)))
                    (ssrOutputDirectory c)
                \<and> refresh c' =
                  (if refresh c = Some (RefreshBoolean True)
                   then Some (RefreshConfigs
                          [\<lparr>paths = [''resources/views/**''], fullReloadConfig = None\<rparr>])
                   else refresh c))))
   \<and> fst (snd (wordpress cwd fs v)) = snd (resolvePluginConfig cwd v)
   \<and> (isl (fst (resolvePluginConfig cwd v)) \<longrightarrow> snd (snd (wordpress cwd fs v)) = fs)
   \<and> (\<forall>r p. fst (resolvePluginConfig cwd v) = Inr r \<and> publicDirectory r = Some p \<longrightarrow>
         snd (snd (wordpress cwd fs v)) =
           (if existsSync fs (Some p) then fs else fs(p \<mapsto> Directory)))"
proof (intro conjI allI impI)
  assume "\<forall>c. v \<noteq> JObject c"
  then show "snd (resolvePluginConfig cwd v) = v"
    by (cases v) (simp_all add: resolvePluginConfig_def)
next
  fix c
  assume v: "v = JObject c"
  let ?c' = "snd (resolvePluginConfigObject cwd c)"
  have s: "\<not> isl (fst (resolvePluginConfigObject cwd c)) \<Longrightarrow> ?c' = assignments c"
    by (cases "fst (resolvePluginConfigObject cwd c)")
       (auto dest: resolvePluginConfigObject_snd)
  show "\<exists>c'. snd (resolvePluginConfig cwd v) = JObject c'
           \<and> namespace c' = namespace c \<and> input c' = input c
           \<and> emptyOutDir c' = emptyOutDir c \<and> hotFile c' = hotFile c
           \<and> ssrExternal c' = ssrExternal c \<and> transformOnServe c' = transformOnServe c
           \<and> (\<not> isl (fst (resolvePluginConfig cwd v)) \<longrightarrow>
                publicDirectory c' =
                  map_option (\<lambda>p. trimLeadingSlashes (trim p)) (publicDirectory c)
                \<and> buildDirectory c' =
                  map_option (\<lambda>b. trimTrailingSlashes (trimLeadingSlashes (trim b)))
                    (buildDirectory c)
                \<and> ssrOutputDirectory c' =
                  map_option (\<lambda>d. trimTrailingSlashes (trimLeadingSlashes (trim d)))
                    (ssrOutputDirectory c)
                \<and> refresh c' =
                  (if refresh c = Some (RefreshBoolean True)
                   then Some (RefreshConfigs
                          [\<lparr>paths = [''resources/views/**''], fullReloadConfig = None\<rparr>])
                   else refresh c))"
  proof (intro exI [of _ ?c'] conjI impI)
    assume "\<not> isl (fst (resolvePluginConfig cwd v))"
    then have a: "?c' = assignments c" using s by (simp add: v resolvePluginConfig_JObject)
    show "publicDirectory ?c' = map_option (\<lambda>p. trimLeadingSlashes (trim p)) (publicDirectory c)"
      and "buildDirectory ?c' =
             map_option (\<lambda>b. trimTrailingSlashes (trimLeadingSlashes (trim b))) (buildDirectory c)"
      and "ssrOutputDirectory ?c' =
             map_option (\<lambda>d. trimTrailingSlashes (trimLeadingSlashes (trim d)))
               (ssrOutputDirectory c)"
      and "refresh ?c' =
             (if refresh c = Some (RefreshBoolean True)
              then Some (RefreshConfigs
                     [\<lparr>paths = [''resources/views/**''], fullReloadConfig = None\<rparr>])
              else refresh c)"
      unfolding a by (simp_all add: assignments_def refreshPaths_def)
  qed (simp_all add: v resolvePluginConfig_JObject resolvePluginConfigObject_kept)
next
  show "fst (snd (wordpress cwd fs v)) = snd (resolvePluginConfig cwd v)"
    by (cases "resolvePluginConfig cwd v") (auto simp: wordpress_def split: sum.splits)
next
  assume "isl (fst (resolvePluginConfig cwd v))"
  then show "snd (snd (wordpress cwd fs v)) = fs"
    by (cases "resolvePluginConfig cwd v") (auto simp: wordpress_def split: sum.splits)
next
  fix r p
  assume a: "fst (resolvePluginConfig cwd v) = Inr r \<and> publicDirectory r = Some p"
  then obtain c where v: "v = JObject c"
    by (cases v) (auto simp: resolvePluginConfig_def)
  with a have "p \<noteq> []"
    by (cases "publicDirectory c")
       (auto simp: resolvePluginConfig_JObject resolvePluginConfigObject_Inr assignments_def
          resolve_not_Nil)
  with a show "snd (snd (wordpress cwd fs v)) =
           (if existsSync fs (Some p) then fs else fs(p \<mapsto> Directory))"
    by (cases "resolvePluginConfig cwd v")
       (auto simp: wordpress_def split: sum.splits option.splits fs_node.splits)
qed

theorem normalizer_effects_witness:
  "snd (snd (wordpress ''/srv/wp-content/themes/t'' Map.empty
       (JObject ((minimalConfig ''ns'' (Single ''a.js''))\<lparr>publicDirectory := Some ''/foo''\<rparr>))))
     = [''foo'' \<mapsto> Directory]
   \<and> snd (snd (wordpress ''/srv/wp-content/themes/t'' [''x'' \<mapsto> File ''y''] JArray))
     = [''x'' \<mapsto> File ''y'']
   \<and> snd (resolvePluginConfig ''/srv/wp-content/themes/t'' JArray) = JArray"
proof -
  let ?c = "(minimalConfig ''ns'' (Single ''a.js''))\<lparr>publicDirectory := Some ''/foo''\<rparr>"
  let ?cwd = "''/srv/wp-content/themes/t''"
  have t: "trimLeadingSlashes (trim ''/foo'') = ''foo''"
    by (simp add: trim_def trimLeadingSlashes_def isWhiteSpace_def)
  have r: "fst (resolvePluginConfig ?cwd (JObject ?c)) = Inr (resolvedConfig ?cwd (assignments ?c))
           \<and> publicDirectory (resolvedConfig ?cwd (assignments ?c)) = Some ''foo''"
    using t
    by (simp add: resolvePluginConfig_JObject resolvePluginConfigObject_Inr minimalConfig_def
          assignments_def)
  have "snd (snd (wordpress ?cwd Map.empty (JObject ?c))) = [''foo'' \<mapsto> Directory]"
    using normalizer_effects [of "JObject ?c" ?cwd Map.empty] r by simp
  moreover have "isl (fst (resolvePluginConfig ?cwd JArray))"
    by (simp add: resolvePluginConfig_def)
  then have "snd (snd (wordpress ?cwd [''x'' \<mapsto> File ''y''] JArray)) = [''x'' \<mapsto> File ''y'']"
    using normalizer_effects [of JArray ?cwd "[''x'' \<mapsto> File ''y'']"] by simp
  moreover have "snd (resolvePluginConfig ?cwd JArray) = JArray"
    using normalizer_effects [of JArray ?cwd Map.empty] by simp
  ultimately show ?thesis by simp
qed

text \<open>After the call on an object with \<^verbatim>\<open>publicDirectory\<close> \<^verbatim>\<open>"/foo"\<close> the object holds
  \<^verbatim>\<open>"foo"\<close>.\<close>

theorem normalizer_argument_counterexample:
  "snd (resolvePluginConfig ''/srv/wp-content/themes/t''
          (JObject ((minimalConfig ''ns'' (Single ''a.js''))\<lparr>publicDirectory := Some ''/foo''\<rparr>)))
     = JObject ((minimalConfig ''ns'' (Single ''a.js''))\<lparr>publicDirectory := Some ''foo''\<rparr>)
   \<and> snd (resolvePluginConfig ''/srv/wp-content/themes/t''
          (JObject ((minimalConfig ''ns'' (Single ''a.js''))\<lparr>publicDirectory := Some ''/foo''\<rparr>)))
     \<noteq> JObject ((minimalConfig ''ns'' (Single ''a.js''))\<lparr>publicDirectory := Some ''/foo''\<rparr>)"
proof -
  let ?c = "(minimalConfig ''ns'' (Single ''a.js''))\<lparr>publicDirectory := Some ''/foo''\<rparr>"
  have t: "trimLeadingSlashes (trim ''/foo'') = ''foo''"
    by (simp add: trim_def trimLeadingSlashes_def isWhiteSpace_def)
  have "\<exists>r. fst (resolvePluginConfigObject ''/srv/wp-content/themes/t'' ?c) = Inr r"
    using t by (simp add: resolvePluginConfigObject_Inr minimalConfig_def)
  then have "snd (resolvePluginConfigObject ''/srv/wp-content/themes/t'' ?c) = assignments ?c"
    by (auto dest: resolvePluginConfigObject_snd)
  also have "\<dots> = (minimalConfig ''ns'' (Single ''a.js''))\<lparr>publicDirectory := Some ''foo''\<rparr>"
    using t
    by (simp add: assignments_def assignSsr_def assignPublicDirectory_def assignBuildDirectory_def
          assignSsrOutputDirectory_def assignRefresh_def minimalConfig_def)
  finally show ?thesis
    by (simp add: resolvePluginConfig_JObject minimalConfig_def)
qed

section \<open>Shape of the resolved configuration\<close>

text \<open>
  Claim C3, as the code has it. For every configuration that \<^verbatim>\<open>resolvePluginConfig\<close>
  accepts, every field of the result is present; \<^verbatim>\<open>buildDirectory\<close> neither begins
  nor ends with a slash; \<^verbatim>\<open>ssrOutputDirectory\<close> does not end with a slash, and does
  not begin with one when it or \<^verbatim>\<open>publicDirectory\<close> was supplied; a supplied
  \<^verbatim>\<open>publicDirectory\<close> does not begin with a slash, and then neither does a defaulted
  \<^verbatim>\<open>hotFile\<close>. A supplied \<^verbatim>\<open>hotFile\<close> is returned as it was given, and the defaulted
  \<^verbatim>\<open>publicDirectory\<close> is an absolute path: it begins with a slash whenever the working
  directory does.
\<close>

theorem resolved_config_shape:
  assumes "fst (resolvePluginConfig cwd (JObject c)) = Inr r"
  shows "(namespace r \<noteq> None \<and> input r \<noteq> None \<and> publicDirectory r \<noteq> None
          \<and> emptyOutDir r \<noteq> None \<and> buildDirectory r \<noteq> None \<and> hotFile r \<noteq> None
          \<and> ssr r \<noteq> None \<and> ssrExternal r \<noteq> None \<and> ssrOutputDirectory r \<noteq> None
          \<and> refresh r \<noteq> None \<and> transformOnServe r \<noteq> None)
    \<and> (\<forall>b. buildDirectory r = Some b \<longrightarrow> \<not> beginsWithSlash b \<and> \<not> endsWithSlash b)
    \<and> (\<forall>d. ssrOutputDirectory r = Some d \<longrightarrow>
          \<not> endsWithSlash d
          \<and> (publicDirectory c \<noteq> None \<or> ssrOutputDirectory c \<noteq> None \<longrightarrow> \<not> beginsWithSlash d))
    \<and> (\<forall>p. publicDirectory r = Some p \<longrightarrow>
          (publicDirectory c \<noteq> None \<longrightarrow> \<not> beginsWithSlash p)
          \<and> (publicDirectory c = None \<and> isAbsolute cwd \<longrightarrow> beginsWithSlash p))
    \<and> (\<forall>h. hotFile r = Some h \<longrightarrow>
          (hotFile c \<noteq> None \<longrightarrow> hotFile c = Some h)
          \<and> (hotFile c = None \<and> publicDirectory c \<noteq> None \<longrightarrow> \<not> beginsWithSlash h))"
proof -
  from assms have r: "r = resolvedConfig cwd (assignments c)"
    and n: "namespace c \<noteq> None" "input c \<noteq> None"
    and pne: "map_option (\<lambda>p. trimLeadingSlashes (trim p)) (publicDirectory c) \<noteq> Some []"
    and bne: "map_option (\<lambda>b. trimTrailingSlashes (trimLeadingSlashes (trim b))) (buildDirectory c)
                \<noteq> Some []"
    by (simp_all add: resolvePluginConfig_JObject resolvePluginConfigObject_Inr)
  have present: "namespace r \<noteq> None \<and> input r \<noteq> None \<and> publicDirectory r \<noteq> None
          \<and> emptyOutDir r \<noteq> None \<and> buildDirectory r \<noteq> None \<and> hotFile r \<noteq> None
          \<and> ssr r \<noteq> None \<and> ssrExternal r \<noteq> None \<and> ssrOutputDirectory r \<noteq> None
          \<and> refresh r \<noteq> None \<and> transformOnServe r \<noteq> None"
    using n unfolding r by (cases "ssr c") (auto simp: assignments_def)
  have build: "\<forall>b. buildDirectory r = Some b \<longrightarrow> \<not> beginsWithSlash b \<and> \<not> endsWithSlash b"
  proof (cases "buildDirectory c")
    case None
    then show ?thesis
      unfolding r by (simp add: assignments_def beginsWithSlash_def endsWithSlash_def)
  next
    case (Some b)
    then show ?thesis
      unfolding r by (simp add: assignments_def trimmedDirectory_slashes)
  qed
  have pub: "\<forall>p. publicDirectory r = Some p \<longrightarrow>
          (publicDirectory c \<noteq> None \<longrightarrow> \<not> beginsWithSlash p)
          \<and> (publicDirectory c = None \<and> isAbsolute cwd \<longrightarrow> beginsWithSlash p)"
    unfolding r
    by (cases "publicDirectory c")
       (simp_all add: assignments_def trimLeadingSlashes_begin resolve_absolute)
  have rel: "publicDirectory c \<noteq> None \<Longrightarrow>
        \<not> beginsWithSlash (join (coalesce (publicDirectory (assignments c)) dflt) q)" for dflt q
  proof -
    assume "publicDirectory c \<noteq> None"
    then obtain p where p: "publicDirectory c = Some p" by auto
    with pne have "trimLeadingSlashes (trim p) \<noteq> []" by simp
    then have "\<not> beginsWithSlash (join (trimLeadingSlashes (trim p)) q)"
      by (rule join_relative) (rule trimLeadingSlashes_begin)
    with p show ?thesis by (simp add: assignments_def)
  qed
  have ssrOut: "\<forall>d. ssrOutputDirectory r = Some d \<longrightarrow>
          \<not> endsWithSlash d
          \<and> (publicDirectory c \<noteq> None \<or> ssrOutputDirectory c \<noteq> None \<longrightarrow> \<not> beginsWithSlash d)"
  proof (cases "ssrOutputDirectory c")
    case None
    then have "ssrOutputDirectory r =
        Some (join (coalesce (publicDirectory (assignments c))
                (resolve cwd (cwd @ ''/../../uploads/scw-vite-hmr/'' @
                   coalesce (namespace (assignments c)) ''undefined''))) ''ssr'')"
      unfolding r by (simp add: assignments_def)
    with None rel show ?thesis by (auto simp: plain_ssr_hot)
  next
    case (Some d)
    then have "ssrOutputDirectory r = Some (trimTrailingSlashes (trimLeadingSlashes (trim d)))"
      unfolding r by (simp add: assignments_def)
    then show ?thesis by (simp add: trimmedDirectory_slashes)
  qed
  have hot: "\<forall>h. hotFile r = Some h \<longrightarrow>
          (hotFile c \<noteq> None \<longrightarrow> hotFile c = Some h)
          \<and> (hotFile c = None \<and> publicDirectory c \<noteq> None \<longrightarrow> \<not> beginsWithSlash h)"
  proof (cases "hotFile c")
    case None
    then have "hotFile r =
        Some (join (coalesce (publicDirectory (assignments c))
                (resolve cwd (cwd @ ''/../../uploads/scw-vite-hmr/'' @
                   coalesce (namespace (assignments c)) ''undefined''))) ''hot'')"
      unfolding r by (simp add: assignments_def)
    with None rel show ?thesis by auto
  next
    case (Some h)
    then show ?thesis unfolding r by (simp add: assignments_def)
  qed
  from present build ssrOut pub hot show ?thesis by blast
qed

theorem resolved_config_shape_witness:
  "\<exists>r h b d. fst (resolvePluginConfig ''/srv/wp-content/themes/t''
              (JObject ((minimalConfig ''ns'' (Single ''a.js''))
                 \<lparr>publicDirectory := Some ''/public/'', buildDirectory := Some ''/dist/''\<rparr>)))
            = Inr r
     \<and> hotFile r = Some h \<and> \<not> beginsWithSlash h
     \<and> buildDirectory r = Some b \<and> \<not> beginsWithSlash b \<and> \<not> endsWithSlash b
     \<and> ssrOutputDirectory r = Some d \<and> \<not> beginsWithSlash d \<and> \<not> endsWithSlash d"
proof -
  let ?c = "(minimalConfig ''ns'' (Single ''a.js''))
              \<lparr>publicDirectory := Some ''/public/'', buildDirectory := Some ''/dist/''\<rparr>"
  have "trimLeadingSlashes (trim ''/public/'') \<noteq> []"
    and "trimTrailingSlashes (trimLeadingSlashes (trim ''/dist/'')) \<noteq> []"
    by (simp_all add: trim_def trimLeadingSlashes_def trimTrailingSlashes_def isWhiteSpace_def)
  then have "\<exists>r. fst (resolvePluginConfig ''/srv/wp-content/themes/t'' (JObject ?c)) = Inr r"
    by (simp add: resolvePluginConfig_JObject resolvePluginConfigObject_Inr minimalConfig_def)
  then obtain r where r: "fst (resolvePluginConfig ''/srv/wp-content/themes/t'' (JObject ?c)) = Inr r"
    by blast
  note s = resolved_config_shape [OF r]
  from s obtain h b d where "hotFile r = Some h" "buildDirectory r = Some b"
    "ssrOutputDirectory r = Some d"
    by auto
  moreover have "hotFile ?c = None" "publicDirectory ?c \<noteq> None"
    by (simp_all add: minimalConfig_def)
  ultimately show ?thesis using r s by blast
qed

text \<open>With only \<^verbatim>\<open>hotFile: "/tmp/hot"\<close> supplied, both \<^verbatim>\<open>publicDirectory\<close> and
  \<^verbatim>\<open>hotFile\<close> of the result begin with a slash.\<close>

theorem resolved_config_counterexample:
  "map_sum id publicDirectory
     (fst (resolvePluginConfig ''/srv/wp-content/themes/t''
        (JObject ((minimalConfig ''ns'' (Single ''a.js''))\<lparr>hotFile := Some ''/tmp/hot''\<rparr>))))
   = Inr (Some ''/srv/wp-content/uploads/scw-vite-hmr/ns'')
   \<and> map_sum id hotFile
     (fst (resolvePluginConfig ''/srv/wp-content/themes/t''
        (JObject ((minimalConfig ''ns'' (Single ''a.js''))\<lparr>hotFile := Some ''/tmp/hot''\<rparr>))))
   = Inr (Some ''/tmp/hot'')"
proof -
  let ?c = "(minimalConfig ''ns'' (Single ''a.js''))\<lparr>hotFile := Some ''/tmp/hot''\<rparr>"
  let ?cwd = "''/srv/wp-content/themes/t''"
  have "fst (resolvePluginConfig ?cwd (JObject ?c)) = Inr (resolvedConfig ?cwd (assignments ?c))"
    by (simp add: resolvePluginConfig_JObject resolvePluginConfigObject_Inr minimalConfig_def)
  then show ?thesis
    using resolve_example by (simp add: assignments_def minimalConfig_def)
qed

section \<open>Normalizing a normalized configuration\<close>

text \<open>
  Claim C5, as the code has it. For every configuration that \<^verbatim>\<open>resolvePluginConfig\<close>
  accepts and whose resolved \<^verbatim>\<open>publicDirectory\<close>, \<^verbatim>\<open>buildDirectory\<close> and
  \<^verbatim>\<open>ssrOutputDirectory\<close> are left unchanged by the trimming of lines 390-392, 402-405
  and 415-418, applying \<^verbatim>\<open>resolvePluginConfig\<close> to the result returns that result
  again and leaves it unchanged.
\<close>

theorem idempotent_on_trimmed_output:
  assumes "fst (resolvePluginConfig cwd (JObject c)) = Inr r"
    and "publicDirectory r = Some p" and "trimLeadingSlashes (trim p) = p"
    and "buildDirectory r = Some b" and "trimTrailingSlashes (trimLeadingSlashes (trim b)) = b"
    and "ssrOutputDirectory r = Some d"
    and "trimTrailingSlashes (trimLeadingSlashes (trim d)) = d"
  shows "resolvePluginConfig cwd (JObject r) = (Inr r, JObject r)"
proof -
  from assms(1) have r: "r = resolvedConfig cwd (assignments c)"
    and n: "namespace c \<noteq> None" "input c \<noteq> None"
    and pne: "map_option (\<lambda>p. trimLeadingSlashes (trim p)) (publicDirectory c) \<noteq> Some []"
    and bne: "map_option (\<lambda>b. trimTrailingSlashes (trimLeadingSlashes (trim b))) (buildDirectory c)
                \<noteq> Some []"
    by (simp_all add: resolvePluginConfig_JObject resolvePluginConfigObject_Inr)
  have nr: "namespace r = namespace c" "input r = input c"
    unfolding r by (simp_all add: assignments_def)
  have p: "p \<noteq> []"
    using assms(2) pne unfolding r
    by (cases "publicDirectory c") (auto simp: assignments_def resolve_not_Nil)
  have b: "b \<noteq> []"
    using assms(4) bne unfolding r
    by (cases "buildDirectory c") (auto simp: assignments_def)
  have ssr: "ssr r = Some (Single ''undefined'') \<Longrightarrow> input r = ssr r"
    using n unfolding r by (cases "ssr c") (auto simp: assignments_def split: if_splits)
  have ssr_some: "ssr r \<noteq> None"
    using n unfolding r by (cases "ssr c") (auto simp: assignments_def)
  have refresh: "refresh r \<noteq> Some (RefreshBoolean True)" "refresh r \<noteq> None"
    unfolding r by (cases "refresh c"; simp add: assignments_def)+
  have others: "emptyOutDir r \<noteq> None" "hotFile r \<noteq> None" "ssrExternal r \<noteq> None"
    "transformOnServe r \<noteq> None"
    unfolding r by simp_all
  have a: "assignments r = r"
    using assms(2-7) ssr refresh
    by (intro plugin_config.equality) (auto simp: assignments_def)
  have "resolvedConfig cwd r = r"
    using assms(2,4,6) ssr_some refresh others
    by (intro plugin_config.equality) auto
  with a have "fst (resolvePluginConfigObject cwd r) = Inr r"
    using n nr assms(2-5) p b by (simp add: resolvePluginConfigObject_Inr)
  with a resolvePluginConfigObject_snd [OF this] show ?thesis
    by (simp add: resolvePluginConfig_JObject prod_eq_iff)
qed

theorem idempotent_witness:
  "resolvePluginConfig ''/srv/wp-content/themes/t''
     (JObject (projr (fst (resolvePluginConfig ''/srv/wp-content/themes/t''
        (JObject ((minimalConfig ''ns'' (Single ''a.js''))
           \<lparr>publicDirectory := Some ''/public'', refresh := Some (RefreshBoolean True)\<rparr>))))))
   = (fst (resolvePluginConfig ''/srv/wp-content/themes/t''
        (JObject ((minimalConfig ''ns'' (Single ''a.js''))
           \<lparr>publicDirectory := Some ''/public'', refresh := Some (RefreshBoolean True)\<rparr>))),
      JObject (projr (fst (resolvePluginConfig ''/srv/wp-content/themes/t''
        (JObject ((minimalConfig ''ns'' (Single ''a.js''))
           \<lparr>publicDirectory := Some ''/public'', refresh := Some (RefreshBoolean True)\<rparr>))))))
   \<and> \<not> isl (fst (resolvePluginConfig ''/srv/wp-content/themes/t''
        (JObject ((minimalConfig ''ns'' (Single ''a.js''))
           \<lparr>publicDirectory := Some ''/public'', refresh := Some (RefreshBoolean True)\<rparr>))))"
proof -
  let ?c = "(minimalConfig ''ns'' (Single ''a.js''))
              \<lparr>publicDirectory := Some ''/public'', refresh := Some (RefreshBoolean True)\<rparr>"
  let ?cwd = "''/srv/wp-content/themes/t''"
  let ?r = "resolvedConfig ?cwd (assignments ?c)"
  have t: "trimLeadingSlashes (trim ''/public'') = ''public''"
    "trimLeadingSlashes (trim ''public'') = ''public''"
    "trimTrailingSlashes (trimLeadingSlashes (trim ''build'')) = ''build''"
    "trimTrailingSlashes (trimLeadingSlashes (trim ''public/ssr'')) = ''public/ssr''"
    by (simp_all add: trim_def trimLeadingSlashes_def trimTrailingSlashes_def isWhiteSpace_def)
  have j: "join ''public'' ''ssr'' = ''public/ssr''" by code_simp
  have first: "fst (resolvePluginConfig ?cwd (JObject ?c)) = Inr ?r"
    using t by (simp add: resolvePluginConfig_JObject resolvePluginConfigObject_Inr minimalConfig_def)
  have "publicDirectory ?r = Some ''public''" "buildDirectory ?r = Some ''build''"
    "ssrOutputDirectory ?r = Some ''public/ssr''"
    using t j by (simp_all add: assignments_def minimalConfig_def)
  from idempotent_on_trimmed_output [OF first this(1) t(2) this(2) t(3) this(3) t(4)]
  show ?thesis using first by simp
qed

text \<open>The defaulted \<^verbatim>\<open>publicDirectory\<close> is an absolute path; the second call strips
  its leading slash.\<close>

theorem idempotence_counterexample:
  "map_sum id publicDirectory
     (fst (resolvePluginConfig ''/srv/wp-content/themes/t''
        (JObject (minimalConfig ''ns'' (Single ''a.js'')))))
   = Inr (Some ''/srv/wp-content/uploads/scw-vite-hmr/ns'')
   \<and> map_sum id publicDirectory
     (fst (resolvePluginConfig ''/srv/wp-content/themes/t''
        (JObject (projr (fst (resolvePluginConfig ''/srv/wp-content/themes/t''
           (JObject (minimalConfig ''ns'' (Single ''a.js'')))))))))
   = Inr (Some ''srv/wp-content/uploads/scw-vite-hmr/ns'')"
proof -
  let ?c = "minimalConfig ''ns'' (Single ''a.js'')"
  let ?cwd = "''/srv/wp-content/themes/t''"
  define r where "r = resolvedConfig ?cwd (assignments ?c)"
  have t: "trimLeadingSlashes (trim ''/srv/wp-content/uploads/scw-vite-hmr/ns'')
            = ''srv/wp-content/uploads/scw-vite-hmr/ns''"
    by (simp add: trim_def trimLeadingSlashes_def isWhiteSpace_def)
  have b: "trimTrailingSlashes (trimLeadingSlashes (trim ''build'')) = ''build''"
    by (simp add: trim_def trimLeadingSlashes_def trimTrailingSlashes_def isWhiteSpace_def)
  have first: "fst (resolvePluginConfig ?cwd (JObject ?c)) = Inr r"
    unfolding r_def
    by (simp add: resolvePluginConfig_JObject resolvePluginConfigObject_Inr minimalConfig_def)
  have p: "publicDirectory r = Some ''/srv/wp-content/uploads/scw-vite-hmr/ns''"
    and bd: "buildDirectory r = Some ''build''"
    and n: "namespace r = Some ''ns''" "input r = Some (Single ''a.js'')"
    unfolding r_def using resolve_example by (simp_all add: assignments_def minimalConfig_def)
  have "fst (resolvePluginConfig ?cwd (JObject r)) = Inr (resolvedConfig ?cwd (assignments r))"
    using t b p bd n
    by (simp add: resolvePluginConfig_JObject resolvePluginConfigObject_Inr)
  moreover have "publicDirectory (resolvedConfig ?cwd (assignments r))
      = Some ''srv/wp-content/uploads/scw-vite-hmr/ns''"
    using p t by (simp add: assignments_def)
  ultimately show ?thesis using first p by simp
qed

end
